theory Spec2Isabelle
  imports Main "HOL-Library.Word"
begin

unbundle bit_operations_syntax

section \<open>Values of the engine\<close>

subsection \<open>C++ float\<close>

text \<open>
  A C++ \<open>float\<close> is kept as its IEEE-754 binary32 bit pattern. The engine never does
  arithmetic on a volume: it stores floats, hands them to the backend and compares two of
  them with \<open>>\<close> once (in \<open>updateSoundLoopVolume\<close>). The comparison is the IEEE one: false
  when either side is a NaN, and otherwise the order of the sign-and-magnitude readings,
  in which \<open>+0\<close> and \<open>-0\<close> are equal.
\<close>

type_synonym float32 = "32 word"

definition float_isnan :: "float32 \<Rightarrow> bool" where
  "float_isnan w = (0x7F800000 < (w AND 0x7FFFFFFF))"

definition float_key :: "float32 \<Rightarrow> int" where
  "float_key w = (if bit w 31 then - uint (w AND 0x7FFFFFFF) else uint (w AND 0x7FFFFFFF))"

definition float_gt :: "float32 \<Rightarrow> float32 \<Rightarrow> bool" where
  "float_gt a b = (\<not> float_isnan a \<and> \<not> float_isnan b \<and> float_key b < float_key a)"

text \<open>
  Two floats are equal (\<open>==\<close>) when neither is a NaN and their readings agree; \<open>+0\<close>
  and \<open>-0\<close> are equal although their bit patterns differ.
\<close>

definition float_eq :: "float32 \<Rightarrow> float32 \<Rightarrow> bool" where
  "float_eq a b = (\<not> float_isnan a \<and> \<not> float_isnan b \<and> float_key a = float_key b)"

text \<open>The float literals of the source: \<open>0.0f\<close>, \<open>0.5f\<close>, \<open>1.0f\<close>, \<open>-1.0f\<close>, \<open>5000.0f\<close>.\<close>

definition f_0_0 :: float32 where "f_0_0 = 0x00000000"
definition f_0_5 :: float32 where "f_0_5 = 0x3F000000"
definition f_1_0 :: float32 where "f_1_0 = 0x3F800000"
definition f_neg_1_0 :: float32 where "f_neg_1_0 = 0xBF800000"
definition f_5000_0 :: float32 where "f_5000_0 = 0x459C4000"

text \<open>Two more values a caller passes as a volume in the scenarios: \<open>0.75f\<close> and \<open>-0.0f\<close>.\<close>

definition f_0_75 :: float32 where "f_0_75 = 0x3F400000"
definition f_neg_0_0 :: float32 where "f_neg_0_0 = 0x80000000"

text \<open>
  \<open>const float DISTANCEFACTOR = 1.0f\<close>: every product \<open>v * DISTANCEFACTOR\<close> of the source
  is a product with \<open>1.0f\<close>. It returns \<open>v\<close> for every number, zero and infinity; a
  NaN comes back as a quiet NaN, that is with bit 22 set and its sign and payload kept.
\<close>

definition times_DISTANCEFACTOR :: "float32 \<Rightarrow> float32" where
  "times_DISTANCEFACTOR v = (if float_isnan v then v OR 0x00400000 else v)"

text \<open>\<open>FMOD_VECTOR\<close>: the aggregate \<open>{ a, b, c }\<close> of the source is \<open>Vec a b c\<close>.\<close>

datatype FMOD_VECTOR = Vec float32 float32 float32

subsection \<open>Handles\<close>

text \<open>
  \<open>FMOD::Sound*\<close>, \<open>FMOD::Channel*\<close>, \<open>FMOD::Studio::EventDescription*\<close> and
  \<open>FMOD::Studio::EventInstance*\<close> are pointers to objects of the backend: null, or
  the object the backend handed out. A member call \<open>p->m(...)\<close> through a null
  pointer is undefined behaviour; the model ends the run there with \<open>NullDeref\<close>,
  keeping the engine as it was at that moment.
\<close>

datatype ptr = Null | Ptr nat

datatype fault = NullDeref

datatype FMOD_STUDIO_PLAYBACK_STATE =
    FMOD_STUDIO_PLAYBACK_PLAYING
  | FMOD_STUDIO_PLAYBACK_SUSTAINING
  | FMOD_STUDIO_PLAYBACK_STOPPED
  | FMOD_STUDIO_PLAYBACK_STARTING
  | FMOD_STUDIO_PLAYBACK_STOPPING

subsection \<open>SoundInfo\<close>

text \<open>
  Modelled from the spec: \<open>SoundInfo.h\<close>, which the current \<open>AudioEngine.h\<close> includes, is
  not among the sources. The engine reads a descriptor through \<open>getUniqueID\<close>,
  \<open>getFilePath\<close>, \<open>isLoop\<close>, \<open>is3D\<close>, \<open>isLoaded\<close>, \<open>getVolume\<close>, \<open>getReverbAmount\<close>,
  \<open>getX\<close>, \<open>getY\<close>, \<open>getZ\<close> and writes it through \<open>setVolume\<close> and \<open>setLoaded\<close>; the
  spec's SoundDescriptor has the matching data (id, loop, is3D, position, volume, loaded).
  Each getter is a field of the record, each setter an update of its field. The earlier
  revision declares the struct itself (\<open>uniqueID\<close>, \<open>filePath\<close>, \<open>isLoop\<close>, \<open>is3D\<close>,
  \<open>isLoaded\<close>, \<open>x\<close>, \<open>y\<close>, \<open>z\<close>) and reads the same fields directly.
\<close>

record SoundInfo =
  getUniqueID :: string
  getFilePath :: string
  isLoop :: bool
  is3D :: bool
  isLoaded :: bool
  getVolume :: float32
  getReverbAmount :: float32
  getX :: float32
  getY :: float32
  getZ :: float32

definition setVolume :: "SoundInfo \<Rightarrow> float32 \<Rightarrow> SoundInfo" where
  "setVolume soundInfo v = soundInfo\<lparr>getVolume := v\<rparr>"

subsection \<open>The backend, as the engine sees it\<close>

text \<open>
  The audio backend is outside the repository. What the engine does to it is the
  sequence of calls it makes, oldest first; what the backend answers through an
  out-parameter (\<open>&sound\<close>, \<open>&channel\<close>, \<open>&parentclock\<close>, \<open>&eventDescription\<close>,
  \<open>&eventInstance\<close>, \<open>&playbackState\<close>) is an argument of the modelled operation.
  The \<open>FMOD_RESULT\<close> of a call only reaches \<open>ERRCHECK\<close>, which prints and returns, so
  it changes neither the control flow nor the state and is left out.
\<close>

datatype fmod_call =
    System_createSound string bool
  | Sound_setMode ptr bool
  | Sound_set3DMinMaxDistance ptr float32 float32
  | Sound_getLength ptr
  | System_playSound ptr bool
  | Channel_set3DAttributes ptr FMOD_VECTOR FMOD_VECTOR
  | Channel_setVolume ptr float32
  | Channel_setReverbProperties ptr nat float32
  | Channel_setPaused ptr bool
  | Channel_stop ptr
  | Channel_getDSPClock ptr
  | Channel_addFadePoint ptr "64 word" float32
  | System_set3DListenerAttributes FMOD_VECTOR FMOD_VECTOR FMOD_VECTOR
  | Studio_getEvent string
  | EventDescription_createInstance ptr
  | EventDescription_getParameterDescriptionCount ptr
  | EventDescription_is3D ptr
  | EventDescription_isOneshot ptr
  | EventDescription_isValid ptr
  | EventInstance_setParameterByName ptr string float32
  | EventInstance_start ptr
  | EventInstance_stop ptr
  | EventInstance_setVolume ptr float32
  | EventInstance_getPlaybackState ptr

text \<open>
  The lines the engine itself writes to \<open>std::cout\<close>, one constructor per message. The
  diagnostic lines of \<open>ERRCHECK\<close> depend on the backend's result codes and are not
  among them.
\<close>

datatype notice =
    LoadingSound string
  | AlreadyLoaded
  | NotLoaded string
  | CantStop
  | CantUpdateVolume
  | LoadingEvent string
  | SettingParameter string float32
  | EventNotInCacheSetParam string
  | EventNotInCachePlay string
  | EventNotInCacheStop string
  | SettingEventVolume
  | BeforePlayingEvent string
  | PlayingEvent string
  | EventInfo

section \<open>The engine\<close>

text \<open>
  The data members of \<open>class AudioEngine\<close>, with the trace of backend calls and the
  console. The model describes an engine on which \<open>init()\<close> has run: the system handles
  \<open>studioSystem\<close> and \<open>lowLevelSystem\<close> are valid and are not part of the record.
\<close>

record AudioEngine =
  sounds :: "string \<rightharpoonup> ptr"
  loopsPlaying :: "string \<rightharpoonup> ptr"
  soundBanks :: "string \<rightharpoonup> ptr"
  eventDescriptions :: "string \<rightharpoonup> ptr"
  eventInstances :: "string \<rightharpoonup> ptr"
  listenerpos :: FMOD_VECTOR
  forward :: FMOD_VECTOR
  up :: FMOD_VECTOR
  muted :: bool
  backend :: "fmod_call list"
  console :: "notice list"

text \<open>The engine after its constructor and \<open>init()\<close>: empty maps, the default listener.\<close>

definition initial :: AudioEngine where
  "initial = \<lparr> sounds = Map.empty, loopsPlaying = Map.empty, soundBanks = Map.empty,
               eventDescriptions = Map.empty, eventInstances = Map.empty,
               listenerpos = Vec f_0_0 f_0_0 (times_DISTANCEFACTOR f_neg_1_0),
               forward = Vec f_0_0 f_0_0 f_1_0,
               up = Vec f_0_0 f_1_0 f_0_0,
               muted = False, backend = [], console = [] \<rparr>"

subsection \<open>std::map\<close>

text \<open>
  \<open>m.count(k)\<close> is 0 or 1; \<open>m.insert({k, v})\<close> stores only when \<open>k\<close> is absent and
  otherwise leaves the entry alone; \<open>m[k]\<close> returns the stored pointer and, when \<open>k\<close>
  is absent, first inserts a value-initialised (null) pointer; \<open>m.erase(k)\<close> removes.
\<close>

definition map_count :: "('k \<rightharpoonup> 'v) \<Rightarrow> 'k \<Rightarrow> nat" where
  "map_count m k = (case m k of None \<Rightarrow> 0 | Some v \<Rightarrow> 1)"

definition map_insert :: "('k \<rightharpoonup> 'v) \<Rightarrow> 'k \<Rightarrow> 'v \<Rightarrow> ('k \<rightharpoonup> 'v)" where
  "map_insert m k v = (case m k of None \<Rightarrow> m(k \<mapsto> v) | Some w \<Rightarrow> m)"

definition map_index :: "('k \<rightharpoonup> ptr) \<Rightarrow> 'k \<Rightarrow> ptr \<times> ('k \<rightharpoonup> ptr)" where
  "map_index m k = (case m k of None \<Rightarrow> (Null, m(k \<mapsto> Null)) | Some p \<Rightarrow> (p, m))"

definition map_erase :: "('k \<rightharpoonup> 'v) \<Rightarrow> 'k \<Rightarrow> ('k \<rightharpoonup> 'v)" where
  "map_erase m k = m(k := None)"

subsection \<open>Running an operation\<close>

text \<open>
  An operation returns \<open>Inr\<close> its result, or \<open>Inl\<close> the fault with the engine at the
  moment of the fault.
\<close>

type_synonym 'a run = "(fault \<times> AudioEngine) + 'a"

definition then_do :: "'a run \<Rightarrow> ('a \<Rightarrow> 'b run) \<Rightarrow> 'b run" where
  "then_do r k = (case r of Inl f \<Rightarrow> Inl f | Inr a \<Rightarrow> k a)"

definition invoke :: "AudioEngine \<Rightarrow> fmod_call \<Rightarrow> AudioEngine" where
  "invoke e c = e\<lparr>backend := backend e @ [c]\<rparr>"

definition member_call :: "AudioEngine \<Rightarrow> ptr \<Rightarrow> fmod_call \<Rightarrow> AudioEngine run" where
  "member_call e p c = (case p of Null \<Rightarrow> Inl (NullDeref, e) | Ptr n \<Rightarrow> Inr (invoke e c))"

definition cout :: "AudioEngine \<Rightarrow> notice \<Rightarrow> AudioEngine" where
  "cout e n = e\<lparr>console := console e @ [n]\<rparr>"

section \<open>The current engine\<close>

subsection \<open>Sounds\<close>

definition soundLoaded :: "AudioEngine \<Rightarrow> SoundInfo \<Rightarrow> bool" where
  "soundLoaded e soundInfo = (0 < map_count (sounds e) (getUniqueID soundInfo))"

definition soundIsPlaying :: "AudioEngine \<Rightarrow> SoundInfo \<Rightarrow> bool" where
  "soundIsPlaying e soundInfo =
     (isLoop soundInfo \<and> map_count (loopsPlaying e) (getUniqueID soundInfo) \<noteq> 0)"

definition set3dChannelPosition :: "AudioEngine \<Rightarrow> SoundInfo \<Rightarrow> ptr \<Rightarrow> AudioEngine run" where
  "set3dChannelPosition e soundInfo channel =
     (let position = Vec (times_DISTANCEFACTOR (getX soundInfo))
                         (times_DISTANCEFACTOR (getY soundInfo))
                         (times_DISTANCEFACTOR (getZ soundInfo));
          velocity = Vec f_0_0 f_0_0 f_0_0
      in member_call e channel (Channel_set3DAttributes channel position velocity))"

text \<open>
  \<open>loadSound(SoundInfo soundInfo)\<close>; \<open>sound\<close> is what \<open>createSound\<close> leaves in the local
  \<open>FMOD::Sound* sound\<close>. The descriptor is passed by value, so the closing
  \<open>soundInfo.setLoaded(SOUND_LOADED)\<close> changes the callee's copy only and nothing of it
  is returned.
\<close>

definition loadSound :: "AudioEngine \<Rightarrow> SoundInfo \<Rightarrow> ptr \<Rightarrow> AudioEngine run" where
  "loadSound e soundInfo sound =
     (if \<not> isLoaded soundInfo then
        let e1 = cout e (LoadingSound (getFilePath soundInfo));
            e2 = invoke e1 (System_createSound (getFilePath soundInfo) (is3D soundInfo))
        in then_do (member_call e2 sound (Sound_setMode sound (isLoop soundInfo))) (\<lambda>e3.
           then_do (member_call e3 sound
                      (Sound_set3DMinMaxDistance sound (times_DISTANCEFACTOR f_0_5)
                                                       (times_DISTANCEFACTOR f_5000_0))) (\<lambda>e4.
           let e5 = e4\<lparr>sounds := map_insert (sounds e4) (getUniqueID soundInfo) sound\<rparr>;
               (cached, m) = map_index (sounds e5) (getUniqueID soundInfo);
               e6 = e5\<lparr>sounds := m\<rparr>
           in member_call e6 cached (Sound_getLength cached)))
      else Inr (cout e AlreadyLoaded))"

text \<open>
  \<open>playSound(SoundInfo soundInfo)\<close>; \<open>channel\<close> is what the backend's \<open>playSound\<close> leaves
  in the local \<open>FMOD::Channel* channel\<close>.
\<close>

definition playSound :: "AudioEngine \<Rightarrow> SoundInfo \<Rightarrow> ptr \<Rightarrow> AudioEngine run" where
  "playSound e soundInfo channel =
     (if \<not> isLoaded soundInfo then
        let (sound, m) = map_index (sounds e) (getUniqueID soundInfo);
            e1 = invoke (e\<lparr>sounds := m\<rparr>) (System_playSound sound True)
        in then_do (if is3D soundInfo then set3dChannelPosition e1 soundInfo channel
                    else Inr e1) (\<lambda>e2.
           then_do (member_call e2 channel
                      (Channel_setVolume channel (getVolume soundInfo))) (\<lambda>e3.
           let e4 = (if isLoop soundInfo
                     then e3\<lparr>loopsPlaying :=
                            map_insert (loopsPlaying e3) (getUniqueID soundInfo) channel\<rparr>
                     else e3)
           in then_do (member_call e4 channel
                         (Channel_setReverbProperties channel 0 (getReverbAmount soundInfo))) (\<lambda>e5.
              member_call e5 channel (Channel_setPaused channel False))))
      else Inr (cout e (NotLoaded (getFilePath soundInfo))))"

definition stopSound :: "AudioEngine \<Rightarrow> SoundInfo \<Rightarrow> AudioEngine run" where
  "stopSound e soundInfo =
     (if soundIsPlaying e soundInfo then
        let (channel, m) = map_index (loopsPlaying e) (getUniqueID soundInfo);
            e1 = e\<lparr>loopsPlaying := m\<rparr>
        in then_do (member_call e1 channel (Channel_stop channel)) (\<lambda>e2.
           Inr (e2\<lparr>loopsPlaying := map_erase (loopsPlaying e2) (getUniqueID soundInfo)\<rparr>))
      else Inr (cout e CantStop))"

text \<open>
  \<open>updateSoundLoopVolume(SoundInfo& soundInfo, float newVolume, unsigned int
  fadeSampleLength)\<close>; the descriptor is passed by reference, so the operation returns
  it beside the engine. \<open>clock\<close> is what \<open>getDSPClock\<close> leaves in
  \<open>unsigned long long parentclock\<close>; the sum \<open>parentclock + fadeSampleLength\<close> is
  taken in 64 bits after the 32-bit length is widened.
\<close>

definition updateSoundLoopVolume ::
  "AudioEngine \<Rightarrow> SoundInfo \<Rightarrow> float32 \<Rightarrow> 32 word \<Rightarrow> 64 word \<Rightarrow> (AudioEngine \<times> SoundInfo) run" where
  "updateSoundLoopVolume e soundInfo newVolume fadeSampleLength clock =
     (if soundIsPlaying e soundInfo then
        let (channel, m) = map_index (loopsPlaying e) (getUniqueID soundInfo);
            e1 = e\<lparr>loopsPlaying := m\<rparr>
        in then_do
             (if fadeSampleLength \<le> 64 then
                member_call e1 channel (Channel_setVolume channel newVolume)
              else
                let fadeUp = float_gt newVolume (getVolume soundInfo)
                in then_do (member_call e1 channel (Channel_getDSPClock channel)) (\<lambda>e2.
                   let parentclock = clock;
                       targetFadeVol = (if fadeUp then f_1_0 else newVolume)
                   in then_do (if fadeUp
                               then member_call e2 channel (Channel_setVolume channel newVolume)
                               else Inr e2) (\<lambda>e3.
                      then_do (member_call e3 channel
                                 (Channel_addFadePoint channel parentclock
                                    (getVolume soundInfo))) (\<lambda>e4.
                      member_call e4 channel
                        (Channel_addFadePoint channel (parentclock + ucast fadeSampleLength)
                           targetFadeVol)))))
             (\<lambda>e5. Inr (e5, setVolume soundInfo newVolume))
      else Inr (cout e CantUpdateVolume, soundInfo))"

subsection \<open>Listener\<close>

text \<open>
  \<open>set3DListenerPosition\<close>. Its second statement reads
  \<open>forward { forwardX, forwardY, forwardZ };\<close>: there is no assignment operator, so
  nothing is stored in \<open>forward\<close>, and the backend is handed the \<open>forward\<close> the engine
  already had.
\<close>

definition set3DListenerPosition ::
  "AudioEngine \<Rightarrow> float32 \<Rightarrow> float32 \<Rightarrow> float32 \<Rightarrow> float32 \<Rightarrow> float32 \<Rightarrow> float32
     \<Rightarrow> float32 \<Rightarrow> float32 \<Rightarrow> float32 \<Rightarrow> AudioEngine" where
  "set3DListenerPosition e posX posY posZ forwardX forwardY forwardZ upX upY upZ =
     (let e1 = e\<lparr>listenerpos := Vec posX posY posZ\<rparr>;
          e2 = e1\<lparr>up := Vec upX upY upZ\<rparr>
      in invoke e2 (System_set3DListenerAttributes (listenerpos e2) (forward e2) (up e2)))"

subsection \<open>Events\<close>

text \<open>The loop of \<open>loadFMODStudioEvent\<close> over \<open>paramsValues\<close>.\<close>

fun setParameters :: "AudioEngine \<Rightarrow> ptr \<Rightarrow> (string \<times> float32) list \<Rightarrow> AudioEngine run" where
  "setParameters e eventInstance [] = Inr e"
| "setParameters e eventInstance (parVal # rest) =
     then_do (member_call (cout e (SettingParameter (fst parVal) (snd parVal))) eventInstance
                (EventInstance_setParameterByName eventInstance (fst parVal) (snd parVal)))
             (\<lambda>e1. setParameters e1 eventInstance rest)"

text \<open>
  \<open>loadFMODStudioEvent\<close>; \<open>eventDescription\<close> is what \<open>getEvent\<close> leaves in the local
  of that name and \<open>eventInstance\<close> what \<open>createInstance\<close> leaves in its local.
\<close>

definition loadFMODStudioEvent ::
  "AudioEngine \<Rightarrow> string \<Rightarrow> (string \<times> float32) list \<Rightarrow> ptr \<Rightarrow> ptr \<Rightarrow> AudioEngine run" where
  "loadFMODStudioEvent e eventName paramsValues eventDescription eventInstance =
     (let e1 = cout e (LoadingEvent eventName);
          e2 = invoke e1 (Studio_getEvent eventName)
      in then_do (member_call e2 eventDescription
                    (EventDescription_createInstance eventDescription)) (\<lambda>e3.
         then_do (setParameters e3 eventInstance paramsValues) (\<lambda>e4.
         let e5 = e4\<lparr>eventInstances := map_insert (eventInstances e4) eventName eventInstance\<rparr>;
             e6 = e5\<lparr>eventDescriptions :=
                      map_insert (eventDescriptions e5) eventName eventDescription\<rparr>
         in Inr e6)))"

definition setFMODEventParamValue ::
  "AudioEngine \<Rightarrow> string \<Rightarrow> string \<Rightarrow> float32 \<Rightarrow> AudioEngine run" where
  "setFMODEventParamValue e eventName parameterName v =
     (if 0 < map_count (eventInstances e) eventName then
        let (inst, m) = map_index (eventInstances e) eventName;
            e1 = e\<lparr>eventInstances := m\<rparr>
        in member_call e1 inst (EventInstance_setParameterByName inst parameterName v)
      else Inr (cout e (EventNotInCacheSetParam eventName)))"

text \<open>
  \<open>playEvent\<close> first evaluates \<open>auto eventInstance = eventInstances[eventName]\<close> and
  only then tests \<open>eventInstances.count(eventName) > 0\<close>.
\<close>

definition playEvent :: "AudioEngine \<Rightarrow> string \<Rightarrow> int \<Rightarrow> AudioEngine run" where
  "playEvent e eventName instanceIndex =
     (let (eventInstance, m) = map_index (eventInstances e) eventName;
          e1 = e\<lparr>eventInstances := m\<rparr>
      in if 0 < map_count (eventInstances e1) eventName then
           let (inst, m2) = map_index (eventInstances e1) eventName;
               e2 = e1\<lparr>eventInstances := m2\<rparr>
           in member_call e2 inst (EventInstance_start inst)
         else Inr (cout e1 (EventNotInCachePlay eventName)))"

definition stopEvent :: "AudioEngine \<Rightarrow> string \<Rightarrow> int \<Rightarrow> AudioEngine run" where
  "stopEvent e eventName instanceIndex =
     (if 0 < map_count (eventInstances e) eventName then
        let (inst, m) = map_index (eventInstances e) eventName;
            e1 = e\<lparr>eventInstances := m\<rparr>
        in member_call e1 inst (EventInstance_stop inst)
      else Inr (cout e (EventNotInCacheStop eventName)))"

definition setEventVolume :: "AudioEngine \<Rightarrow> string \<Rightarrow> float32 \<Rightarrow> AudioEngine run" where
  "setEventVolume e eventName volume0to1 =
     (let e1 = cout e SettingEventVolume;
          (inst, m) = map_index (eventInstances e1) eventName;
          e2 = e1\<lparr>eventInstances := m\<rparr>
      in member_call e2 inst (EventInstance_setVolume inst volume0to1))"

text \<open>
  \<open>eventIsPlaying\<close>; \<open>playbackState\<close> is what \<open>getPlaybackState\<close> leaves in the local
  of that name.
\<close>

definition eventIsPlaying ::
  "AudioEngine \<Rightarrow> string \<Rightarrow> int \<Rightarrow> FMOD_STUDIO_PLAYBACK_STATE \<Rightarrow> (bool \<times> AudioEngine) run" where
  "eventIsPlaying e eventName instanceNo playbackState =
     (let (inst, m) = map_index (eventInstances e) eventName;
          e1 = e\<lparr>eventInstances := m\<rparr>
      in then_do (member_call e1 inst (EventInstance_getPlaybackState inst)) (\<lambda>e2.
         Inr (playbackState = FMOD_STUDIO_PLAYBACK_PLAYING, e2)))"

section \<open>The earlier revisions\<close>

text \<open>
  The sources hold two earlier revisions of \<open>AudioEngine.cpp\<close>. The first
  (\<open>_rev1\<close>: \<open>loadSoundFile\<close>, \<open>playSoundFile\<close>, sounds keyed by file path) is
  modelled as far as the listener goes; the second (\<open>_rev2\<close>: the \<open>SoundInfo\<close> struct
  with public fields, sounds looked up in the cache by \<open>soundLoaded\<close>) for loading,
  playing and events.
\<close>

definition set3DListenerPosition_rev1 ::
  "AudioEngine \<Rightarrow> float32 \<Rightarrow> float32 \<Rightarrow> float32 \<Rightarrow> float32 \<Rightarrow> float32 \<Rightarrow> float32
     \<Rightarrow> float32 \<Rightarrow> float32 \<Rightarrow> float32 \<Rightarrow> AudioEngine" where
  "set3DListenerPosition_rev1 e posX posY posZ forwardX forwardY forwardZ upX upY upZ =
     (let e1 = e\<lparr>listenerpos := Vec posX posY posZ\<rparr>;
          e2 = e1\<lparr>forward := Vec forwardY forwardX forwardZ\<rparr>;
          e3 = e2\<lparr>up := Vec upY upX upZ\<rparr>
      in invoke e3 (System_set3DListenerAttributes (listenerpos e3) (forward e3) (up e3)))"

definition set3DListenerPosition_rev2 ::
  "AudioEngine \<Rightarrow> float32 \<Rightarrow> float32 \<Rightarrow> float32 \<Rightarrow> float32 \<Rightarrow> float32 \<Rightarrow> float32
     \<Rightarrow> float32 \<Rightarrow> float32 \<Rightarrow> float32 \<Rightarrow> AudioEngine" where
  "set3DListenerPosition_rev2 e posX posY posZ forwardX forwardY forwardZ upX upY upZ =
     (let e1 = e\<lparr>listenerpos := Vec posX posY posZ\<rparr>;
          e2 = e1\<lparr>forward := Vec forwardX forwardY forwardZ\<rparr>;
          e3 = e2\<lparr>up := Vec upX upY upZ\<rparr>
      in invoke e3 (System_set3DListenerAttributes (listenerpos e3) (forward e3) (up e3)))"

definition loadSound_rev2 :: "AudioEngine \<Rightarrow> SoundInfo \<Rightarrow> ptr \<Rightarrow> AudioEngine run" where
  "loadSound_rev2 e soundInfo sound =
     (if \<not> soundLoaded e soundInfo then
        let e1 = cout e (LoadingSound (getFilePath soundInfo));
            e2 = invoke e1 (System_createSound (getFilePath soundInfo) (is3D soundInfo))
        in then_do (member_call e2 sound (Sound_setMode sound (isLoop soundInfo))) (\<lambda>e3.
           then_do (member_call e3 sound
                      (Sound_set3DMinMaxDistance sound (times_DISTANCEFACTOR f_0_5)
                                                       (times_DISTANCEFACTOR f_5000_0))) (\<lambda>e4.
           Inr (e4\<lparr>sounds := map_insert (sounds e4) (getUniqueID soundInfo) sound\<rparr>)))
      else Inr (cout e AlreadyLoaded))"

definition playSound_rev2 :: "AudioEngine \<Rightarrow> SoundInfo \<Rightarrow> ptr \<Rightarrow> AudioEngine run" where
  "playSound_rev2 e soundInfo channel =
     (if soundLoaded e soundInfo then
        let (sound, m) = map_index (sounds e) (getUniqueID soundInfo);
            e1 = invoke (e\<lparr>sounds := m\<rparr>) (System_playSound sound True)
        in then_do (if is3D soundInfo then set3dChannelPosition e1 soundInfo channel
                    else Inr e1) (\<lambda>e2.
           let e3 = (if isLoop soundInfo
                     then e2\<lparr>loopsPlaying :=
                            map_insert (loopsPlaying e2) (getUniqueID soundInfo) channel\<rparr>
                     else e2)
           in member_call e3 channel (Channel_setPaused channel False))
      else Inr (cout e (NotLoaded (getFilePath soundInfo))))"

definition printEventInfo :: "AudioEngine \<Rightarrow> ptr \<Rightarrow> AudioEngine run" where
  "printEventInfo e eventDescription =
     then_do (member_call e eventDescription
                (EventDescription_getParameterDescriptionCount eventDescription)) (\<lambda>e1.
     then_do (member_call e1 eventDescription (EventDescription_is3D eventDescription)) (\<lambda>e2.
     then_do (member_call e2 eventDescription
                (EventDescription_isOneshot eventDescription)) (\<lambda>e3.
     then_do (member_call e3 eventDescription
                (EventDescription_isValid eventDescription)) (\<lambda>e4.
     Inr (cout e4 EventInfo)))))"

definition playEvent_rev2 :: "AudioEngine \<Rightarrow> string \<Rightarrow> int \<Rightarrow> AudioEngine run" where
  "playEvent_rev2 e eventName instanceIndex =
     (let e1 = cout e (BeforePlayingEvent eventName);
          (eventDescription, md) = map_index (eventDescriptions e1) eventName;
          e2 = e1\<lparr>eventDescriptions := md\<rparr>
      in then_do (printEventInfo e2 eventDescription) (\<lambda>e3.
         let (eventInstance, m) = map_index (eventInstances e3) eventName;
             e4 = e3\<lparr>eventInstances := m\<rparr>
         in if 0 < map_count (eventInstances e4) eventName then
              let e5 = cout e4 (PlayingEvent eventName);
                  (inst, m2) = map_index (eventInstances e5) eventName;
                  e6 = e5\<lparr>eventInstances := m2\<rparr>
              in member_call e6 inst (EventInstance_start inst)
            else Inr (cout e4 (EventNotInCachePlay eventName))))"

section \<open>The fade points of a channel\<close>

text \<open>
  The fade points the engine has issued to a channel, in the order of the calls. No
  revision calls \<open>removeFadePoints\<close>, so a point stays with its channel.
\<close>

fun fade_point_of :: "ptr \<Rightarrow> fmod_call \<Rightarrow> (64 word \<times> float32) list" where
  "fade_point_of channel (Channel_addFadePoint p t v) = (if p = channel then [(t, v)] else [])"
| "fade_point_of channel c = []"

definition fade_points :: "fmod_call list \<Rightarrow> ptr \<Rightarrow> (64 word \<times> float32) list" where
  "fade_points calls channel = concat (map (fade_point_of channel) calls)"

text \<open>
  Modelled from the spec: the backend's fade envelope is not in the sources. By the
  spec a fade point is a (clock-tick, volume) pair that is one endpoint of a linear
  loudness ramp, so at the tick of a fade point the envelope has that point's volume.
  An envelope that is constant at \<open>v\<close> from tick \<open>t0\<close> to tick \<open>t1\<close> therefore has
  no fade point in that interval with a volume other than \<open>v\<close>.
\<close>

definition envelope_constant_at ::
  "(64 word \<times> float32) list \<Rightarrow> 64 word \<Rightarrow> 64 word \<Rightarrow> float32 \<Rightarrow> bool" where
  "envelope_constant_at points t0 t1 v =
     list_all (\<lambda>(t, w). t0 \<le> t \<and> t \<le> t1 \<longrightarrow> float_eq w v) points"

section \<open>Scenarios\<close>

text \<open>
  The looping sound of the spec's scenario, as the caller constructs it
  (\<open>SoundInfo("ambient.ogg", true)\<close>, not loaded, full volume, no reverb), the engine
  after \<open>loadSound\<close> of it and after \<open>playSound\<close> of it, and the engine after
  \<open>loadFMODStudioEvent("Explosion")\<close>. The lemmas of the next section show that the
  current engine reaches each of these states from \<open>initial\<close>.
\<close>

definition ambient :: SoundInfo where
  "ambient = \<lparr> getUniqueID = ''ambient.ogg'', getFilePath = ''ambient.ogg'', isLoop = True,
                is3D = False, isLoaded = False, getVolume = f_1_0, getReverbAmount = f_0_0,
                getX = f_0_0, getY = f_0_0, getZ = f_0_0 \<rparr>"

definition ambient_loaded :: AudioEngine where
  "ambient_loaded = initial
     \<lparr> sounds := (sounds initial)(''ambient.ogg'' \<mapsto> Ptr 1),
       backend := [System_createSound ''ambient.ogg'' False, Sound_setMode (Ptr 1) True,
                   Sound_set3DMinMaxDistance (Ptr 1) f_0_5 f_5000_0, Sound_getLength (Ptr 1)],
       console := [LoadingSound ''ambient.ogg''] \<rparr>"

definition ambient_playing :: AudioEngine where
  "ambient_playing = ambient_loaded
     \<lparr> loopsPlaying := (loopsPlaying ambient_loaded)(''ambient.ogg'' \<mapsto> Ptr 2),
       backend := backend ambient_loaded @
                  [System_playSound (Ptr 1) True, Channel_setVolume (Ptr 2) f_1_0,
                   Channel_setReverbProperties (Ptr 2) 0 f_0_0,
                   Channel_setPaused (Ptr 2) False] \<rparr>"

text \<open>
  The playing \<open>ambient\<close> after a step to volume \<open>0.5\<close> and then a fade up to
  \<open>0.75\<close> over 1000 samples begun at clock 1000; the caller's descriptor then stores
  \<open>0.75\<close>.
\<close>

definition ambient_fading :: AudioEngine where
  "ambient_fading = ambient_playing
     \<lparr> backend := backend ambient_playing @
                  [Channel_setVolume (Ptr 2) f_0_5,
                   Channel_getDSPClock (Ptr 2), Channel_setVolume (Ptr 2) f_0_75,
                   Channel_addFadePoint (Ptr 2) 1000 f_0_5,
                   Channel_addFadePoint (Ptr 2) 2000 f_1_0] \<rparr>"

definition explosion_loaded :: AudioEngine where
  "explosion_loaded = initial
     \<lparr> eventDescriptions := (eventDescriptions initial)(''Explosion'' \<mapsto> Ptr 5),
       eventInstances := (eventInstances initial)(''Explosion'' \<mapsto> Ptr 10),
       backend := [Studio_getEvent ''Explosion'', EventDescription_createInstance (Ptr 5)],
       console := [LoadingEvent ''Explosion''] \<rparr>"

text \<open>
  No registered channel is null. The current engine keeps this: \<open>playSound\<close> registers
  a channel only after \<open>channel->setVolume\<close> went through it.
\<close>

definition channels_valid :: "AudioEngine \<Rightarrow> bool" where
  "channels_valid e = (\<forall>k. loopsPlaying e k \<noteq> Some Null)"

section \<open>Properties\<close>

lemmas run_defs = then_do_def member_call_def invoke_def cout_def map_index_def map_insert_def
  map_count_def map_erase_def

lemmas float_defs = float_gt_def float_eq_def float_isnan_def float_key_def f_0_0_def f_0_5_def
  f_1_0_def f_neg_1_0_def f_5000_0_def f_0_75_def f_neg_0_0_def times_DISTANCEFACTOR_def

lemmas scenario_defs = ambient_def ambient_loaded_def ambient_playing_def ambient_fading_def
  explosion_loaded_def initial_def

subsection \<open>The float comparison\<close>

lemma float_gt_irrefl: "\<not> float_gt v v"
  by (simp add: float_gt_def)

lemma float_gt_asym: "float_gt a b \<Longrightarrow> \<not> float_gt b a"
  by (simp add: float_gt_def)

lemma float_gt_nan: "float_isnan a \<or> float_isnan b \<Longrightarrow> \<not> float_gt a b"
  by (auto simp add: float_gt_def)

lemma float_gt_zeros: "\<not> float_gt f_0_0 0x80000000 \<and> \<not> float_gt 0x80000000 f_0_0"
  by (simp add: float_defs)

lemma float_gt_literals: "float_gt f_1_0 f_0_5 \<and> float_gt f_0_5 f_0_0 \<and> float_gt f_0_0 f_neg_1_0"
  by (simp add: float_defs)

lemma float_eq_sym: "float_eq a b \<Longrightarrow> float_eq b a"
  by (simp add: float_eq_def)

lemma float_eq_self: "float_eq a b \<Longrightarrow> float_eq a a"
  by (simp add: float_eq_def)

lemma float_eq_not_gt: "float_eq a b \<Longrightarrow> \<not> float_gt a b"
  by (simp add: float_eq_def float_gt_def)

lemma float_eq_zeros: "float_eq f_neg_0_0 f_0_0 \<and> f_neg_0_0 \<noteq> f_0_0"
  by (simp add: float_defs)

lemma times_DISTANCEFACTOR_number: "\<not> float_isnan v \<Longrightarrow> times_DISTANCEFACTOR v = v"
  by (simp add: times_DISTANCEFACTOR_def)

lemma times_DISTANCEFACTOR_literals:
  "times_DISTANCEFACTOR f_0_0 = f_0_0 \<and> times_DISTANCEFACTOR f_0_5 = f_0_5 \<and>
   times_DISTANCEFACTOR f_neg_1_0 = f_neg_1_0 \<and> times_DISTANCEFACTOR f_5000_0 = f_5000_0"
  by (simp add: float_defs)

lemma times_DISTANCEFACTOR_quiets: "times_DISTANCEFACTOR 0x7FA00000 = 0x7FE00000"
  by (simp add: times_DISTANCEFACTOR_def float_isnan_def)

subsection \<open>The scenarios are reachable\<close>

lemma ambient_loaded_reached: "loadSound initial ambient (Ptr 1) = Inr ambient_loaded"
  by (simp add: loadSound_def scenario_defs run_defs times_DISTANCEFACTOR_literals)

lemma ambient_playing_reached: "playSound ambient_loaded ambient (Ptr 2) = Inr ambient_playing"
  by (simp add: playSound_def scenario_defs run_defs)

lemma ambient_fading_reached:
  "updateSoundLoopVolume ambient_playing ambient f_0_5 0 900 =
     Inr (ambient_playing
            \<lparr>backend := backend ambient_playing @ [Channel_setVolume (Ptr 2) f_0_5]\<rparr>,
          ambient\<lparr>getVolume := f_0_5\<rparr>) \<and>
   updateSoundLoopVolume
     (ambient_playing
        \<lparr>backend := backend ambient_playing @ [Channel_setVolume (Ptr 2) f_0_5]\<rparr>)
     (ambient\<lparr>getVolume := f_0_5\<rparr>) f_0_75 1000 1000 =
     Inr (ambient_fading, ambient\<lparr>getVolume := f_0_75\<rparr>)"
  by (simp add: updateSoundLoopVolume_def soundIsPlaying_def setVolume_def scenario_defs
      run_defs float_defs)

lemma explosion_loaded_reached:
  "loadFMODStudioEvent initial ''Explosion'' [] (Ptr 5) (Ptr 10) = Inr explosion_loaded"
  by (simp add: loadFMODStudioEvent_def scenario_defs run_defs)

subsection \<open>Helper facts about runs\<close>

lemma member_call_Inr: "member_call e p c = Inr e' \<Longrightarrow> p \<noteq> Null \<and> e' = invoke e c"
  by (cases p) (simp_all add: member_call_def)

lemma setParameters_valid:
  "setParameters e (Ptr i) ps =
     Inr (e\<lparr> backend := backend e @
                map (\<lambda>pv. EventInstance_setParameterByName (Ptr i) (fst pv) (snd pv)) ps,
              console := console e @ map (\<lambda>pv. SettingParameter (fst pv) (snd pv)) ps \<rparr>)"
proof (induction ps arbitrary: e)
  case Nil
  show ?case by simp
next
  case (Cons pv ps)
  show ?case by (simp add: Cons.IH run_defs)
qed

subsection \<open>Registered channels stay valid\<close>

lemma channels_valid_initial: "channels_valid initial"
  by (simp add: channels_valid_def initial_def)

lemma loadSound_channels_valid:
  assumes "channels_valid e" and "loadSound e si s = Inr e'"
  shows "channels_valid e'"
  using assms
  by (auto simp add: loadSound_def channels_valid_def run_defs Let_def
      split: if_splits option.splits ptr.splits)

lemma playSound_channels_valid:
  assumes "channels_valid e" and "playSound e si ch = Inr e'"
  shows "channels_valid e'"
proof (cases "isLoaded si")
  case True
  with assms show ?thesis
    by (auto simp add: playSound_def channels_valid_def cout_def)
next
  case False
  show ?thesis
  proof (cases ch)
    case Null
    with False assms(2) show ?thesis
      by (simp add: playSound_def set3dChannelPosition_def run_defs Let_def
          split: if_splits option.splits)
  next
    case (Ptr c)
    with False assms show ?thesis
      by (auto simp add: playSound_def set3dChannelPosition_def channels_valid_def run_defs
          Let_def split: option.splits if_splits)
  qed
qed

lemma stopSound_channels_valid:
  assumes "channels_valid e" and "stopSound e si = Inr e'"
  shows "channels_valid e'"
  using assms
  by (auto simp add: stopSound_def channels_valid_def run_defs
      split: if_splits option.splits ptr.splits)

lemma stopSound_returns:
  assumes "channels_valid e"
  shows "\<exists>e'. stopSound e si = Inr e'"
proof (cases "loopsPlaying e (getUniqueID si)")
  case None
  then show ?thesis by (simp add: stopSound_def soundIsPlaying_def map_count_def)
next
  case (Some p)
  with assms obtain c where "p = Ptr c"
    by (cases p) (auto simp add: channels_valid_def)
  with Some show ?thesis by (simp add: stopSound_def run_defs)
qed

subsection \<open>Playing a sound\<close>

text \<open>
  C1 (the code differs). The claim: \<open>playSound\<close> of a descriptor whose id is not in the
  \<open>sounds\<close> cache reports "not loaded", starts no backend channel and leaves
  \<open>loopsPlaying\<close> alone. The current \<open>playSound\<close> tests \<open>!soundInfo.isLoaded()\<close> and
  never looks at the cache: on the fresh engine, for the never-loaded looping descriptor
  \<open>ambient\<close>, it indexes \<open>sounds\<close> (which inserts a null sound), asks the backend to
  play that null sound, and, when the backend hands back a channel, configures it,
  registers it in \<open>loopsPlaying\<close> and unpauses it; when the backend hands back no
  channel it faults on \<open>channel->setVolume\<close>. The "not loaded" message is not printed.
\<close>

theorem playSound_unloaded_plays:
  "sounds initial (getUniqueID ambient) = None \<and> \<not> isLoaded ambient \<and>
   playSound initial ambient (Ptr 1) =
     Inr (initial
          \<lparr> sounds := (sounds initial)(''ambient.ogg'' \<mapsto> Null),
            loopsPlaying := (loopsPlaying initial)(''ambient.ogg'' \<mapsto> Ptr 1),
            backend := [System_playSound Null True, Channel_setVolume (Ptr 1) f_1_0,
                        Channel_setReverbProperties (Ptr 1) 0 f_0_0,
                        Channel_setPaused (Ptr 1) False] \<rparr>) \<and>
   playSound initial ambient Null =
     Inl (NullDeref,
          initial
          \<lparr> sounds := (sounds initial)(''ambient.ogg'' \<mapsto> Null),
            backend := [System_playSound Null True] \<rparr>)"
  by (simp add: playSound_def scenario_defs run_defs)

text \<open>
  The same for every engine and every descriptor whose flag is not set and whose id is
  not cached; then the other branch of the current \<open>playSound\<close>, and the second
  earlier revision, which tests the cache and does what C1 says.
\<close>

lemma playSound_ignores_cache:
  assumes "\<not> isLoaded si" and "sounds e (getUniqueID si) = None"
  shows "playSound e si (Ptr c) =
     Inr (e\<lparr> sounds := (sounds e)(getUniqueID si \<mapsto> Null),
             loopsPlaying := (if isLoop si
                              then map_insert (loopsPlaying e) (getUniqueID si) (Ptr c)
                              else loopsPlaying e),
             backend := backend e @
               System_playSound Null True #
               (if is3D si
                then [Channel_set3DAttributes (Ptr c)
                        (Vec (times_DISTANCEFACTOR (getX si)) (times_DISTANCEFACTOR (getY si))
                             (times_DISTANCEFACTOR (getZ si)))
                        (Vec f_0_0 f_0_0 f_0_0)]
                else []) @
               [Channel_setVolume (Ptr c) (getVolume si),
                Channel_setReverbProperties (Ptr c) 0 (getReverbAmount si),
                Channel_setPaused (Ptr c) False] \<rparr>)"
proof -
  from assms(2) have index:
    "map_index (sounds e) (getUniqueID si) = (Null, (sounds e)(getUniqueID si \<mapsto> Null))"
    by (simp add: map_index_def)
  from assms(1) index show ?thesis
    by (simp add: playSound_def set3dChannelPosition_def then_do_def member_call_def
        invoke_def)
qed

lemma playSound_flag_set:
  "isLoaded si \<Longrightarrow> playSound e si ch = Inr (cout e (NotLoaded (getFilePath si)))"
  by (simp add: playSound_def)

lemma playSound_rev2_unloaded:
  "sounds e (getUniqueID si) = None \<Longrightarrow>
   playSound_rev2 e si ch = Inr (cout e (NotLoaded (getFilePath si)))"
  by (simp add: playSound_rev2_def soundLoaded_def map_count_def)

text \<open>
  C2. \<open>soundIsPlaying\<close> is true exactly when the descriptor loops and its id has an
  entry in \<open>loopsPlaying\<close>. After a \<open>playSound\<close> of a looping descriptor that
  returned and reported nothing (the successful call) it is true; after \<open>stopSound\<close>
  it is false, and \<open>stopSound\<close> returns unless the registered channel is null; for a
  descriptor that does not loop it is false in every engine.
\<close>

theorem soundIsPlaying_registry:
  "(soundIsPlaying e si \<longleftrightarrow> isLoop si \<and> loopsPlaying e (getUniqueID si) \<noteq> None) \<and>
   (isLoop si \<and> playSound e si channel = Inr e' \<and> console e' = console e
      \<longrightarrow> soundIsPlaying e' si) \<and>
   (case stopSound e si of
      Inr e'' \<Rightarrow> \<not> soundIsPlaying e'' si
    | Inl f \<Rightarrow> loopsPlaying e (getUniqueID si) = Some Null) \<and>
   (\<not> isLoop si \<longrightarrow> \<not> soundIsPlaying e si)"
proof (intro conjI impI)
  show "soundIsPlaying e si \<longleftrightarrow> isLoop si \<and> loopsPlaying e (getUniqueID si) \<noteq> None"
    by (simp add: soundIsPlaying_def map_count_def split: option.split)
  show "soundIsPlaying e' si"
    if played: "isLoop si \<and> playSound e si channel = Inr e' \<and> console e' = console e"
  proof (cases "isLoaded si")
    case True
    with played have "console e' = console e @ [NotLoaded (getFilePath si)]"
      by (auto simp add: playSound_def cout_def)
    with played show ?thesis by simp
  next
    case False
    with played have "loopsPlaying e' (getUniqueID si) \<noteq> None"
      by (auto simp add: playSound_def set3dChannelPosition_def run_defs Let_def
          split: option.splits if_splits ptr.splits)
    with played show ?thesis
      by (simp add: soundIsPlaying_def map_count_def split: option.split)
  qed
  show "case stopSound e si of
          Inr e'' \<Rightarrow> \<not> soundIsPlaying e'' si
        | Inl f \<Rightarrow> loopsPlaying e (getUniqueID si) = Some Null"
    by (auto simp add: stopSound_def soundIsPlaying_def run_defs
        split: option.splits ptr.splits)
  show "\<not> soundIsPlaying e si" if "\<not> isLoop si"
    using that by (simp add: soundIsPlaying_def)
qed

text \<open>
  The scenario of the spec: \<open>ambient\<close> is not playing once loaded, is playing after
  \<open>playSound\<close>, is not playing after \<open>stopSound\<close>; the same id read through a
  one-shot descriptor is not playing although \<open>loopsPlaying\<close> has the entry.
\<close>

theorem soundIsPlaying_registry_witness:
  "isLoop ambient \<and>
   playSound ambient_loaded ambient (Ptr 2) = Inr ambient_playing \<and>
   console ambient_playing = console ambient_loaded \<and>
   \<not> soundIsPlaying ambient_loaded ambient \<and>
   soundIsPlaying ambient_playing ambient \<and>
   stopSound ambient_playing ambient =
     Inr (ambient_playing
          \<lparr> loopsPlaying := (loopsPlaying ambient_playing)(''ambient.ogg'' := None),
            backend := backend ambient_playing @ [Channel_stop (Ptr 2)] \<rparr>) \<and>
   \<not> soundIsPlaying
        (ambient_playing
          \<lparr> loopsPlaying := (loopsPlaying ambient_playing)(''ambient.ogg'' := None),
            backend := backend ambient_playing @ [Channel_stop (Ptr 2)] \<rparr>) ambient \<and>
   \<not> isLoop (ambient\<lparr>isLoop := False\<rparr>) \<and>
   loopsPlaying ambient_playing (getUniqueID (ambient\<lparr>isLoop := False\<rparr>)) = Some (Ptr 2) \<and>
   \<not> soundIsPlaying ambient_playing (ambient\<lparr>isLoop := False\<rparr>)"
  using soundIsPlaying_registry [of ambient_loaded ambient "Ptr 2" ambient_playing]
    soundIsPlaying_registry [of ambient_playing ambient]
    soundIsPlaying_registry [of ambient_playing "ambient\<lparr>isLoop := False\<rparr>"]
  by (simp add: playSound_def stopSound_def soundIsPlaying_def scenario_defs run_defs)

text \<open>
  C4 (amended). No revision of \<open>playSound\<close> looks at \<open>loopsPlaying\<close> before it plays,
  and no message of the engine says "already playing". When \<open>playSound\<close> takes its
  play branch for a looping descriptor whose id is cached and already has an entry in
  \<open>loopsPlaying\<close>, it starts one more backend channel, configures and unpauses it, and
  prints nothing; \<open>loopsPlaying.insert\<close> finds the key taken, so the registry, and with
  it the one entry of the id (the earlier channel), is the same before and after.
\<close>

theorem playSound_while_playing:
  assumes "isLoop si" and "\<not> isLoaded si"
    and "sounds e (getUniqueID si) = Some s"
    and "loopsPlaying e (getUniqueID si) = Some old"
  shows "playSound e si (Ptr c) =
     Inr (e\<lparr> backend := backend e @
              System_playSound s True #
              (if is3D si
               then [Channel_set3DAttributes (Ptr c)
                       (Vec (times_DISTANCEFACTOR (getX si)) (times_DISTANCEFACTOR (getY si))
                            (times_DISTANCEFACTOR (getZ si)))
                       (Vec f_0_0 f_0_0 f_0_0)]
               else []) @
              [Channel_setVolume (Ptr c) (getVolume si),
               Channel_setReverbProperties (Ptr c) 0 (getReverbAmount si),
               Channel_setPaused (Ptr c) False] \<rparr>)"
proof -
  from assms(3) have index: "map_index (sounds e) (getUniqueID si) = (s, sounds e)"
    by (simp add: map_index_def)
  from assms(4) have kept: "map_insert (loopsPlaying e) (getUniqueID si) (Ptr c) = loopsPlaying e"
    by (simp add: map_insert_def)
  from assms(1,2) index kept show ?thesis
    by (simp add: playSound_def set3dChannelPosition_def then_do_def member_call_def
        invoke_def)
qed

theorem playSound_while_playing_witness:
  "isLoop ambient \<and> \<not> isLoaded ambient \<and>
   sounds ambient_playing (getUniqueID ambient) = Some (Ptr 1) \<and>
   loopsPlaying ambient_playing (getUniqueID ambient) = Some (Ptr 2) \<and>
   playSound ambient_playing ambient (Ptr 3) =
     Inr (ambient_playing
          \<lparr> backend := backend ambient_playing @
               [System_playSound (Ptr 1) True, Channel_setVolume (Ptr 3) f_1_0,
                Channel_setReverbProperties (Ptr 3) 0 f_0_0,
                Channel_setPaused (Ptr 3) False] \<rparr>)"
  using playSound_while_playing [of ambient ambient_playing "Ptr 1" "Ptr 2" 3]
  by (simp add: scenario_defs)

text \<open>
  C4 as stated fails: \<open>ambient\<close> is playing on channel 2, and a second \<open>playSound\<close>
  is not rejected. The backend is asked to play the sound again and the new channel 3
  is set up and unpaused; the console stays as it was and the registry still names
  channel 2.
\<close>

theorem second_playSound_not_rejected:
  "soundIsPlaying ambient_playing ambient \<and>
   loopsPlaying ambient_playing ''ambient.ogg'' = Some (Ptr 2) \<and>
   playSound ambient_playing ambient (Ptr 3) =
     Inr (ambient_playing
          \<lparr> backend := backend ambient_playing @
               [System_playSound (Ptr 1) True, Channel_setVolume (Ptr 3) f_1_0,
                Channel_setReverbProperties (Ptr 3) 0 f_0_0,
                Channel_setPaused (Ptr 3) False] \<rparr>)"
  by (simp add: playSound_def soundIsPlaying_def scenario_defs run_defs)

text \<open>The second earlier revision behaves the same way once the id is cached.\<close>

lemma playSound_rev2_while_playing:
  assumes "isLoop si" and "sounds e (getUniqueID si) = Some s"
    and "loopsPlaying e (getUniqueID si) = Some old"
  shows "playSound_rev2 e si (Ptr c) =
     Inr (e\<lparr> backend := backend e @
              System_playSound s True #
              (if is3D si
               then [Channel_set3DAttributes (Ptr c)
                       (Vec (times_DISTANCEFACTOR (getX si)) (times_DISTANCEFACTOR (getY si))
                            (times_DISTANCEFACTOR (getZ si)))
                       (Vec f_0_0 f_0_0 f_0_0)]
               else []) @
              [Channel_setPaused (Ptr c) False] \<rparr>)"
  using assms
  by (simp add: playSound_rev2_def soundLoaded_def set3dChannelPosition_def run_defs)

subsection \<open>Loading a sound\<close>

text \<open>
  C3 (the code differs). The claim: a second \<open>loadSound\<close> of the same id is a no-op
  with an "already loaded" notice and no second \<open>createSound\<close>. The current
  \<open>loadSound\<close> tests \<open>!soundInfo.isLoaded()\<close> on a descriptor it received by value,
  so the flag it sets at the end never reaches the caller: loading \<open>ambient\<close> twice
  calls \<open>createSound\<close> twice and prints "Loading Sound" twice. The cache keeps its one
  entry (\<open>insert\<close> finds the key taken), so the second sound of the backend is stored
  nowhere.
\<close>

theorem loadSound_twice_creates_twice:
  "loadSound initial ambient (Ptr 1) = Inr ambient_loaded \<and>
   loadSound ambient_loaded ambient (Ptr 9) =
     Inr (ambient_loaded
          \<lparr> backend := backend ambient_loaded @
               [System_createSound ''ambient.ogg'' False, Sound_setMode (Ptr 9) True,
                Sound_set3DMinMaxDistance (Ptr 9) f_0_5 f_5000_0, Sound_getLength (Ptr 1)],
            console := console ambient_loaded @ [LoadingSound ''ambient.ogg''] \<rparr>)"
  by (simp add: loadSound_def scenario_defs run_defs times_DISTANCEFACTOR_literals)

text \<open>
  The same for every engine in which the id is cached on a valid sound: the current
  \<open>loadSound\<close> of a descriptor whose flag is not set creates a sound again and
  leaves the cache as it was.
\<close>

lemma loadSound_ignores_cache:
  assumes "\<not> isLoaded si" and "sounds e (getUniqueID si) = Some (Ptr old)"
  shows "loadSound e si (Ptr s) =
     Inr (e\<lparr> backend := backend e @
               [System_createSound (getFilePath si) (is3D si),
                Sound_setMode (Ptr s) (isLoop si),
                Sound_set3DMinMaxDistance (Ptr s) (times_DISTANCEFACTOR f_0_5)
                  (times_DISTANCEFACTOR f_5000_0),
                Sound_getLength (Ptr old)],
             console := console e @ [LoadingSound (getFilePath si)] \<rparr>)"
proof -
  from assms(2) have kept: "map_insert (sounds e) (getUniqueID si) (Ptr s) = sounds e"
    by (simp add: map_insert_def)
  from assms(2) have index: "map_index (sounds e) (getUniqueID si) = (Ptr old, sounds e)"
    by (simp add: map_index_def)
  from assms(1) kept index show ?thesis
    by (simp add: loadSound_def then_do_def member_call_def invoke_def cout_def)
qed

text \<open>
  The second earlier revision tests the cache: a load that returns leaves the id cached,
  and a load of a cached id only prints the notice.
\<close>

lemma loadSound_rev2_caches:
  "loadSound_rev2 e si s = Inr e' \<Longrightarrow> soundLoaded e' si"
  by (auto simp add: loadSound_rev2_def soundLoaded_def run_defs Let_def
      split: if_splits option.splits ptr.splits)

lemma loadSound_rev2_cached:
  "soundLoaded e si \<Longrightarrow> loadSound_rev2 e si s = Inr (cout e AlreadyLoaded)"
  by (simp add: loadSound_rev2_def)

lemma loadSound_rev2_twice:
  assumes "loadSound_rev2 e si s = Inr e'"
  shows "loadSound_rev2 e' si s' = Inr (cout e' AlreadyLoaded)"
  using assms loadSound_rev2_caches loadSound_rev2_cached by blast

subsection \<open>Volume fades\<close>

text \<open>
  What \<open>updateSoundLoopVolume\<close> does for a looping descriptor whose id is registered
  on a valid channel, in its three cases.
\<close>

lemma updateSoundLoopVolume_playing:
  assumes "isLoop si" and "loopsPlaying e (getUniqueID si) = Some (Ptr c)"
  shows "updateSoundLoopVolume e si newVolume fadeSampleLength t0 =
     Inr (e\<lparr> backend := backend e @
              (if fadeSampleLength \<le> 64 then [Channel_setVolume (Ptr c) newVolume]
               else if float_gt newVolume (getVolume si) then
                 [Channel_getDSPClock (Ptr c), Channel_setVolume (Ptr c) newVolume,
                  Channel_addFadePoint (Ptr c) t0 (getVolume si),
                  Channel_addFadePoint (Ptr c) (t0 + ucast fadeSampleLength) f_1_0]
               else
                 [Channel_getDSPClock (Ptr c),
                  Channel_addFadePoint (Ptr c) t0 (getVolume si),
                  Channel_addFadePoint (Ptr c) (t0 + ucast fadeSampleLength) newVolume]) \<rparr>,
          si\<lparr>getVolume := newVolume\<rparr>)"
proof -
  from assms have playing: "soundIsPlaying e si"
    by (simp add: soundIsPlaying_def map_count_def)
  from assms(2) have index: "map_index (loopsPlaying e) (getUniqueID si) = (Ptr c, loopsPlaying e)"
    by (simp add: map_index_def)
  show ?thesis
  proof (cases "fadeSampleLength \<le> 64")
    case True
    with playing index show ?thesis
      by (simp add: updateSoundLoopVolume_def setVolume_def then_do_def member_call_def
          invoke_def)
  next
    case False
    with playing index show ?thesis
      by (simp add: updateSoundLoopVolume_def setVolume_def then_do_def member_call_def
          invoke_def)
  qed
qed

lemma updateSoundLoopVolume_not_playing:
  "\<not> soundIsPlaying e si \<Longrightarrow>
   updateSoundLoopVolume e si newVolume fadeSampleLength t0 = Inr (cout e CantUpdateVolume, si)"
  by (simp add: updateSoundLoopVolume_def)

lemma updateSoundLoopVolume_channels_valid:
  assumes "channels_valid e"
    and "updateSoundLoopVolume e si newVolume fadeSampleLength t0 = Inr (e', si')"
  shows "channels_valid e'"
proof (cases "soundIsPlaying e si")
  case False
  with assms show ?thesis
    by (auto simp add: updateSoundLoopVolume_not_playing channels_valid_def cout_def)
next
  case True
  then obtain p where p: "loopsPlaying e (getUniqueID si) = Some p" and loop: "isLoop si"
    by (auto simp add: soundIsPlaying_def map_count_def split: option.splits)
  with assms(1) obtain c where "p = Ptr c"
    by (cases p) (auto simp add: channels_valid_def)
  with p loop assms show ?thesis
    by (auto simp add: updateSoundLoopVolume_playing channels_valid_def)
qed

text \<open>
  C5. For a looping descriptor playing on a valid channel, \<open>updateSoundLoopVolume\<close>
  with \<open>fadeSampleLength \<le> 64\<close> issues one \<open>setVolume(newVolume)\<close> and no fade point.
  With a longer fade it reads the clock \<open>t0\<close> and issues exactly two fade points, at
  \<open>t0\<close> with the stored volume and at \<open>t0 + fadeSampleLength\<close> (64-bit sum) with
  \<open>1.0\<close> when \<open>newVolume\<close> is greater than the stored volume, after setting the channel
  volume to \<open>newVolume\<close>, and with \<open>newVolume\<close> otherwise. In every case the
  descriptor comes back with \<open>newVolume\<close> stored, and nothing else of the engine changes.
\<close>

theorem updateSoundLoopVolume_fade:
  assumes "isLoop si" and "loopsPlaying e (getUniqueID si) = Some (Ptr c)"
  shows "(fadeSampleLength \<le> 64 \<longrightarrow>
            updateSoundLoopVolume e si newVolume fadeSampleLength t0 =
              Inr (e\<lparr>backend := backend e @ [Channel_setVolume (Ptr c) newVolume]\<rparr>,
                   si\<lparr>getVolume := newVolume\<rparr>)) \<and>
         (64 < fadeSampleLength \<and> float_gt newVolume (getVolume si) \<longrightarrow>
            updateSoundLoopVolume e si newVolume fadeSampleLength t0 =
              Inr (e\<lparr>backend := backend e @
                       [Channel_getDSPClock (Ptr c), Channel_setVolume (Ptr c) newVolume,
                        Channel_addFadePoint (Ptr c) t0 (getVolume si),
                        Channel_addFadePoint (Ptr c) (t0 + ucast fadeSampleLength) f_1_0]\<rparr>,
                   si\<lparr>getVolume := newVolume\<rparr>)) \<and>
         (64 < fadeSampleLength \<and> \<not> float_gt newVolume (getVolume si) \<longrightarrow>
            updateSoundLoopVolume e si newVolume fadeSampleLength t0 =
              Inr (e\<lparr>backend := backend e @
                       [Channel_getDSPClock (Ptr c),
                        Channel_addFadePoint (Ptr c) t0 (getVolume si),
                        Channel_addFadePoint (Ptr c) (t0 + ucast fadeSampleLength) newVolume]\<rparr>,
                   si\<lparr>getVolume := newVolume\<rparr>))"
  using updateSoundLoopVolume_playing [OF assms, of newVolume fadeSampleLength t0]
  by (auto simp add: not_le [symmetric])

text \<open>
  The three cases on the playing \<open>ambient\<close> (stored volume \<open>1.0\<close>, channel 2, clock
  1000): a step to \<open>0.5\<close> with the default length 0; the spec's fade down to \<open>0.0\<close>
  over 128 samples; and, for the descriptor at volume \<open>0.5\<close>, a fade up to \<open>1.0\<close>.
\<close>

theorem updateSoundLoopVolume_fade_witness:
  "isLoop ambient \<and> loopsPlaying ambient_playing (getUniqueID ambient) = Some (Ptr 2) \<and>
   (0::32 word) \<le> 64 \<and>
   updateSoundLoopVolume ambient_playing ambient f_0_5 0 1000 =
     Inr (ambient_playing
            \<lparr>backend := backend ambient_playing @ [Channel_setVolume (Ptr 2) f_0_5]\<rparr>,
          ambient\<lparr>getVolume := f_0_5\<rparr>) \<and>
   (64::32 word) < 128 \<and> \<not> float_gt f_0_0 (getVolume ambient) \<and>
   updateSoundLoopVolume ambient_playing ambient f_0_0 128 1000 =
     Inr (ambient_playing
            \<lparr>backend := backend ambient_playing @
               [Channel_getDSPClock (Ptr 2), Channel_addFadePoint (Ptr 2) 1000 f_1_0,
                Channel_addFadePoint (Ptr 2) 1128 f_0_0]\<rparr>,
          ambient\<lparr>getVolume := f_0_0\<rparr>) \<and>
   float_gt f_1_0 (getVolume (ambient\<lparr>getVolume := f_0_5\<rparr>)) \<and>
   updateSoundLoopVolume ambient_playing (ambient\<lparr>getVolume := f_0_5\<rparr>) f_1_0 128 1000 =
     Inr (ambient_playing
            \<lparr>backend := backend ambient_playing @
               [Channel_getDSPClock (Ptr 2), Channel_setVolume (Ptr 2) f_1_0,
                Channel_addFadePoint (Ptr 2) 1000 f_0_5,
                Channel_addFadePoint (Ptr 2) 1128 f_1_0]\<rparr>,
          ambient\<lparr>getVolume := f_1_0\<rparr>)"
  using updateSoundLoopVolume_fade [of ambient ambient_playing 2 0 f_0_5 1000]
    updateSoundLoopVolume_fade [of ambient ambient_playing 2 128 f_0_0 1000]
    updateSoundLoopVolume_fade [of "ambient\<lparr>getVolume := f_0_5\<rparr>" ambient_playing 2 128 f_1_0
      1000]
  by (simp add: scenario_defs float_defs)

text \<open>The fade points of a longer trace are those of its parts.\<close>

lemma fade_points_append:
  "fade_points (calls @ later) channel = fade_points calls channel @ fade_points later channel"
  by (simp add: fade_points_def)

lemma envelope_constant_at_append:
  "envelope_constant_at (points @ later) t0 t1 v \<longleftrightarrow>
     envelope_constant_at points t0 t1 v \<and> envelope_constant_at later t0 t1 v"
  by (simp add: envelope_constant_at_def)

text \<open>
  C10 (amended). When \<open>newVolume\<close> equals the stored volume and the fade is longer than
  64 samples, the test \<open>newVolume > soundInfo.getVolume()\<close> is false, so the call takes
  the downward case: no \<open>setVolume\<close> is issued, and the two fade points it issues, at
  \<open>t0\<close> with the stored volume and at \<open>t0 + fadeSampleLength\<close> with \<open>newVolume\<close>,
  carry equal values. The call removes no fade point, so afterwards the channel's
  envelope is constant at that value over the ramp interval exactly when the fade points
  the channel already had allow it.
\<close>

theorem equal_volume_ramps_down:
  assumes "isLoop si" and "loopsPlaying e (getUniqueID si) = Some (Ptr c)"
    and "64 < fadeSampleLength"
    and "float_eq newVolume (getVolume si)"
  shows "\<not> float_gt newVolume (getVolume si) \<and>
         updateSoundLoopVolume e si newVolume fadeSampleLength t0 =
           Inr (e\<lparr>backend := backend e @
                    [Channel_getDSPClock (Ptr c),
                     Channel_addFadePoint (Ptr c) t0 (getVolume si),
                     Channel_addFadePoint (Ptr c) (t0 + ucast fadeSampleLength) newVolume]\<rparr>,
                si\<lparr>getVolume := newVolume\<rparr>) \<and>
         float_eq (getVolume si) newVolume \<and>
         (envelope_constant_at
            (fade_points
               (backend e @
                  [Channel_getDSPClock (Ptr c),
                   Channel_addFadePoint (Ptr c) t0 (getVolume si),
                   Channel_addFadePoint (Ptr c) (t0 + ucast fadeSampleLength) newVolume])
               (Ptr c))
            t0 (t0 + ucast fadeSampleLength) newVolume
          \<longleftrightarrow>
          envelope_constant_at (fade_points (backend e) (Ptr c))
            t0 (t0 + ucast fadeSampleLength) newVolume)"
proof (intro conjI)
  show strict: "\<not> float_gt newVolume (getVolume si)"
    using assms(4) by (rule float_eq_not_gt)
  from assms(3) have long: "\<not> fadeSampleLength \<le> 64"
    by (simp add: not_le)
  from strict long
    updateSoundLoopVolume_playing [OF assms(1,2), of newVolume fadeSampleLength t0]
  show "updateSoundLoopVolume e si newVolume fadeSampleLength t0 =
           Inr (e\<lparr>backend := backend e @
                    [Channel_getDSPClock (Ptr c),
                     Channel_addFadePoint (Ptr c) t0 (getVolume si),
                     Channel_addFadePoint (Ptr c) (t0 + ucast fadeSampleLength) newVolume]\<rparr>,
                si\<lparr>getVolume := newVolume\<rparr>)"
    by simp
  show stored: "float_eq (getVolume si) newVolume"
    using assms(4) by (rule float_eq_sym)
  have requested: "float_eq newVolume newVolume"
    using assms(4) by (rule float_eq_self)
  have issued:
    "fade_points
       [Channel_getDSPClock (Ptr c), Channel_addFadePoint (Ptr c) t0 (getVolume si),
        Channel_addFadePoint (Ptr c) (t0 + ucast fadeSampleLength) newVolume] (Ptr c) =
     [(t0, getVolume si), (t0 + ucast fadeSampleLength, newVolume)]"
    by (simp add: fade_points_def)
  from stored requested have
    "envelope_constant_at [(t0, getVolume si), (t0 + ucast fadeSampleLength, newVolume)]
       t0 (t0 + ucast fadeSampleLength) newVolume"
    by (simp add: envelope_constant_at_def)
  with issued show
    "envelope_constant_at
       (fade_points
          (backend e @
             [Channel_getDSPClock (Ptr c),
              Channel_addFadePoint (Ptr c) t0 (getVolume si),
              Channel_addFadePoint (Ptr c) (t0 + ucast fadeSampleLength) newVolume])
          (Ptr c))
       t0 (t0 + ucast fadeSampleLength) newVolume
     \<longleftrightarrow>
     envelope_constant_at (fade_points (backend e) (Ptr c))
       t0 (t0 + ucast fadeSampleLength) newVolume"
    by (simp add: fade_points_append envelope_constant_at_append)
qed

text \<open>
  On the playing \<open>ambient\<close> (stored volume \<open>1.0\<close>, no fade point yet) a 128-sample
  fade to \<open>1.0\<close> issues the points \<open>(1000, 1.0)\<close> and \<open>(1128, 1.0)\<close> and the envelope
  is constant; for the descriptor at volume \<open>0.0\<close> a fade to \<open>-0.0\<close>, which is equal
  to it, issues \<open>(1000, 0.0)\<close> and \<open>(1128, -0.0)\<close> and stores \<open>-0.0\<close>.
\<close>

theorem equal_volume_ramps_down_witness:
  "isLoop ambient \<and> loopsPlaying ambient_playing (getUniqueID ambient) = Some (Ptr 2) \<and>
   (64::32 word) < 128 \<and> float_eq f_1_0 (getVolume ambient) \<and>
   \<not> float_gt f_1_0 (getVolume ambient) \<and>
   updateSoundLoopVolume ambient_playing ambient f_1_0 128 1000 =
     Inr (ambient_playing
            \<lparr>backend := backend ambient_playing @
               [Channel_getDSPClock (Ptr 2), Channel_addFadePoint (Ptr 2) 1000 f_1_0,
                Channel_addFadePoint (Ptr 2) 1128 f_1_0]\<rparr>,
          ambient) \<and>
   fade_points (backend ambient_playing) (Ptr 2) = [] \<and>
   envelope_constant_at
     (fade_points
        (backend ambient_playing @
           [Channel_getDSPClock (Ptr 2), Channel_addFadePoint (Ptr 2) 1000 f_1_0,
            Channel_addFadePoint (Ptr 2) 1128 f_1_0]) (Ptr 2))
     1000 1128 f_1_0 \<and>
   float_eq f_neg_0_0 (getVolume (ambient\<lparr>getVolume := f_0_0\<rparr>)) \<and>
   updateSoundLoopVolume ambient_playing (ambient\<lparr>getVolume := f_0_0\<rparr>) f_neg_0_0 128 1000 =
     Inr (ambient_playing
            \<lparr>backend := backend ambient_playing @
               [Channel_getDSPClock (Ptr 2), Channel_addFadePoint (Ptr 2) 1000 f_0_0,
                Channel_addFadePoint (Ptr 2) 1128 f_neg_0_0]\<rparr>,
          ambient\<lparr>getVolume := f_neg_0_0\<rparr>)"
  using equal_volume_ramps_down [of ambient ambient_playing 2 128 f_1_0 1000]
    equal_volume_ramps_down [of "ambient\<lparr>getVolume := f_0_0\<rparr>" ambient_playing 2 128
      f_neg_0_0 1000]
  by (simp add: scenario_defs float_defs fade_points_def envelope_constant_at_def)

text \<open>
  C10 as stated fails in its last clause. \<open>ambient\<close> is in the middle of a fade up:
  the channel holds the fade points \<open>(1000, 0.5)\<close> and \<open>(2000, 1.0)\<close> and the
  descriptor stores \<open>0.75\<close>. A call at clock 1100 with \<open>newVolume = 0.75\<close> over 2000
  samples takes the downward case and issues \<open>(1100, 0.75)\<close> and \<open>(3100, 0.75)\<close>,
  but the earlier point \<open>(2000, 1.0)\<close> is still there, inside the ramp interval, so
  the envelope is not constant over it.
\<close>

theorem equal_volume_level_not_constant:
  "soundIsPlaying ambient_fading (ambient\<lparr>getVolume := f_0_75\<rparr>) \<and>
   (64::32 word) < 2000 \<and>
   float_eq f_0_75 (getVolume (ambient\<lparr>getVolume := f_0_75\<rparr>)) \<and>
   updateSoundLoopVolume ambient_fading (ambient\<lparr>getVolume := f_0_75\<rparr>) f_0_75 2000 1100 =
     Inr (ambient_fading
            \<lparr>backend := backend ambient_fading @
               [Channel_getDSPClock (Ptr 2), Channel_addFadePoint (Ptr 2) 1100 f_0_75,
                Channel_addFadePoint (Ptr 2) 3100 f_0_75]\<rparr>,
          ambient\<lparr>getVolume := f_0_75\<rparr>) \<and>
   fade_points
     (backend ambient_fading @
        [Channel_getDSPClock (Ptr 2), Channel_addFadePoint (Ptr 2) 1100 f_0_75,
         Channel_addFadePoint (Ptr 2) 3100 f_0_75]) (Ptr 2) =
     [(1000, f_0_5), (2000, f_1_0), (1100, f_0_75), (3100, f_0_75)] \<and>
   \<not> float_eq f_1_0 f_0_75 \<and>
   \<not> envelope_constant_at
        (fade_points
           (backend ambient_fading @
              [Channel_getDSPClock (Ptr 2), Channel_addFadePoint (Ptr 2) 1100 f_0_75,
               Channel_addFadePoint (Ptr 2) 3100 f_0_75]) (Ptr 2))
        1100 3100 f_0_75"
  by (simp add: updateSoundLoopVolume_def soundIsPlaying_def setVolume_def scenario_defs
      run_defs float_defs fade_points_def envelope_constant_at_def)

subsection \<open>Events\<close>

text \<open>
  C6 (the code differs). The claim: \<open>playEvent\<close> and \<open>stopEvent\<close> on a name that is
  not in \<open>eventInstances\<close> only report it, touch no handle and leave the registries
  alone. \<open>playEvent\<close> evaluates \<open>eventInstances[eventName]\<close> before its test, which
  inserts a null instance under the name; the test \<open>count(eventName) > 0\<close> then
  holds, and \<open>start()\<close> is called through the null instance. On the fresh engine the
  run faults with the registry changed and nothing printed.
\<close>

theorem playEvent_unknown_faults:
  "eventInstances initial ''Nonexistent'' = None \<and>
   playEvent initial ''Nonexistent'' 0 =
     Inl (NullDeref,
          initial\<lparr>eventInstances := (eventInstances initial)(''Nonexistent'' \<mapsto> Null)\<rparr>)"
  by (simp add: playEvent_def initial_def run_defs)

text \<open>
  The same for every engine and unknown name, and for the second earlier revision, where
  \<open>printEventInfo(eventDescriptions[eventName])\<close> comes first and faults on the null
  description it inserted. \<open>stopEvent\<close> and \<open>setFMODEventParamValue\<close> test before
  they index and do what C6 says.
\<close>

lemma playEvent_unknown:
  "eventInstances e eventName = None \<Longrightarrow>
   playEvent e eventName i =
     Inl (NullDeref, e\<lparr>eventInstances := (eventInstances e)(eventName \<mapsto> Null)\<rparr>)"
  by (simp add: playEvent_def run_defs)

lemma playEvent_never_reports:
  "playEvent e eventName i = Inr e' \<Longrightarrow> console e' = console e"
  by (auto simp add: playEvent_def run_defs Let_def split: option.splits ptr.splits)

lemma playEvent_rev2_unknown:
  "eventDescriptions e eventName = None \<Longrightarrow>
   playEvent_rev2 e eventName i =
     Inl (NullDeref, e\<lparr>eventDescriptions := (eventDescriptions e)(eventName \<mapsto> Null),
                      console := console e @ [BeforePlayingEvent eventName]\<rparr>)"
  by (simp add: playEvent_rev2_def printEventInfo_def run_defs)

lemma stopEvent_unknown:
  "eventInstances e eventName = None \<Longrightarrow>
   stopEvent e eventName i = Inr (cout e (EventNotInCacheStop eventName))"
  by (simp add: stopEvent_def map_count_def)

lemma setFMODEventParamValue_unknown:
  "eventInstances e eventName = None \<Longrightarrow>
   setFMODEventParamValue e eventName parameterName v =
     Inr (cout e (EventNotInCacheSetParam eventName))"
  by (simp add: setFMODEventParamValue_def map_count_def)

text \<open>
  C8 (amended). \<open>loadFMODStudioEvent\<close> stores with \<open>insert\<close>, which leaves an
  existing entry alone. For a name present in both registries, a further load with a
  valid description and instance asks the backend for the event and creates a new
  instance of it, sets the given parameters on the new instance, and returns with both
  registries as they were: the slot of the name still holds the earlier instance, and
  the new one is stored nowhere.
\<close>

theorem loadFMODStudioEvent_again:
  assumes "eventInstances e eventName = Some old"
    and "eventDescriptions e eventName = Some oldDescription"
  shows "loadFMODStudioEvent e eventName paramsValues (Ptr d) (Ptr i) =
     Inr (e\<lparr> backend := backend e @
               Studio_getEvent eventName # EventDescription_createInstance (Ptr d) #
               map (\<lambda>pv. EventInstance_setParameterByName (Ptr i) (fst pv) (snd pv))
                 paramsValues,
             console := console e @
               LoadingEvent eventName #
               map (\<lambda>pv. SettingParameter (fst pv) (snd pv)) paramsValues \<rparr>)"
proof -
  from assms(1) have instances:
    "map_insert (eventInstances e) eventName (Ptr i) = eventInstances e"
    by (simp add: map_insert_def)
  from assms(2) have descriptions:
    "map_insert (eventDescriptions e) eventName (Ptr d) = eventDescriptions e"
    by (simp add: map_insert_def)
  from instances descriptions show ?thesis
    by (simp add: loadFMODStudioEvent_def setParameters_valid then_do_def member_call_def
        invoke_def cout_def)
qed

theorem loadFMODStudioEvent_again_witness:
  "eventInstances explosion_loaded ''Explosion'' = Some (Ptr 10) \<and>
   eventDescriptions explosion_loaded ''Explosion'' = Some (Ptr 5) \<and>
   loadFMODStudioEvent explosion_loaded ''Explosion'' [(''Size'', f_0_5)] (Ptr 5) (Ptr 11) =
     Inr (explosion_loaded
          \<lparr> backend := backend explosion_loaded @
               [Studio_getEvent ''Explosion'', EventDescription_createInstance (Ptr 5),
                EventInstance_setParameterByName (Ptr 11) ''Size'' f_0_5],
            console := console explosion_loaded @
               [LoadingEvent ''Explosion'', SettingParameter ''Size'' f_0_5] \<rparr>)"
  using loadFMODStudioEvent_again
    [of explosion_loaded "''Explosion''" "Ptr 10" "Ptr 5" "[(''Size'', f_0_5)]" 5 11]
  by (simp add: scenario_defs)

text \<open>
  C8 as stated fails: \<open>"Explosion"\<close> is loaded with instance 10; loading it again,
  with the backend creating instance 11, returns with the slot still holding instance
  10, not 11.
\<close>

theorem reload_keeps_old_instance:
  "loadFMODStudioEvent explosion_loaded ''Explosion'' [] (Ptr 5) (Ptr 11) =
     Inr (explosion_loaded
          \<lparr> backend := backend explosion_loaded @
               [Studio_getEvent ''Explosion'', EventDescription_createInstance (Ptr 5)],
            console := console explosion_loaded @ [LoadingEvent ''Explosion''] \<rparr>) \<and>
   eventInstances explosion_loaded ''Explosion'' = Some (Ptr 10) \<and>
   Ptr 10 \<noteq> Ptr 11"
  by (simp add: loadFMODStudioEvent_def scenario_defs run_defs)

text \<open>
  C9. For a name that is not in \<open>eventInstances\<close>, \<open>eventIsPlaying\<close> and
  \<open>setEventVolume\<close> index the registry without a test: the lookup inserts a null
  instance under the name, the member call through it faults, and the engine at the
  fault has the registry changed. Neither returns a result for such a name.
\<close>

theorem unknown_event_query_faults:
  assumes "eventInstances e eventName = None"
  shows "eventIsPlaying e eventName i playbackState =
           Inl (NullDeref, e\<lparr>eventInstances := (eventInstances e)(eventName \<mapsto> Null)\<rparr>) \<and>
         setEventVolume e eventName v =
           Inl (NullDeref, e\<lparr>eventInstances := (eventInstances e)(eventName \<mapsto> Null),
                            console := console e @ [SettingEventVolume]\<rparr>)"
proof -
  from assms have index:
    "map_index (eventInstances e) eventName = (Null, (eventInstances e)(eventName \<mapsto> Null))"
    by (simp add: map_index_def)
  then show ?thesis
    by (simp add: eventIsPlaying_def setEventVolume_def then_do_def member_call_def cout_def)
qed

theorem unknown_event_query_faults_witness:
  "eventInstances explosion_loaded ''Nonexistent'' = None \<and>
   eventIsPlaying explosion_loaded ''Nonexistent'' 0 FMOD_STUDIO_PLAYBACK_PLAYING =
     Inl (NullDeref,
          explosion_loaded
          \<lparr>eventInstances := (eventInstances explosion_loaded)(''Nonexistent'' \<mapsto> Null)\<rparr>) \<and>
   setEventVolume explosion_loaded ''Nonexistent'' f_0_5 =
     Inl (NullDeref,
          explosion_loaded
          \<lparr>eventInstances := (eventInstances explosion_loaded)(''Nonexistent'' \<mapsto> Null),
            console := console explosion_loaded @ [SettingEventVolume]\<rparr>)"
  using unknown_event_query_faults
    [of explosion_loaded "''Nonexistent''" 0 FMOD_STUDIO_PLAYBACK_PLAYING f_0_5]
  by (simp add: scenario_defs)

text \<open>For a name with a valid instance both go through and leave the registry alone.\<close>

lemma known_event_query:
  assumes "eventInstances e eventName = Some (Ptr n)"
  shows "eventIsPlaying e eventName i playbackState =
           Inr (playbackState = FMOD_STUDIO_PLAYBACK_PLAYING,
                e\<lparr>backend := backend e @ [EventInstance_getPlaybackState (Ptr n)]\<rparr>) \<and>
         setEventVolume e eventName v =
           Inr (e\<lparr>backend := backend e @ [EventInstance_setVolume (Ptr n) v],
                   console := console e @ [SettingEventVolume]\<rparr>)"
  using assms by (simp add: eventIsPlaying_def setEventVolume_def run_defs)

subsection \<open>The listener\<close>

text \<open>
  C7 (the code differs). The claim: the three vectors are stored as passed, components
  in order. The first earlier revision stores \<open>forward\<close> and \<open>up\<close> with their X and
  Y components exchanged: for forward \<open>(1, 0, 0)\<close> and up \<open>(0, 1, 0)\<close> it stores
  forward \<open>(0, 1, 0)\<close> and up \<open>(1, 0, 0)\<close>, and hands these to the backend.
\<close>

theorem listener_axes_swapped:
  "forward (set3DListenerPosition_rev1 initial f_0_0 f_0_0 f_neg_1_0 f_1_0 f_0_0 f_0_0
              f_0_0 f_1_0 f_0_0) = Vec f_0_0 f_1_0 f_0_0 \<and>
   up (set3DListenerPosition_rev1 initial f_0_0 f_0_0 f_neg_1_0 f_1_0 f_0_0 f_0_0
              f_0_0 f_1_0 f_0_0) = Vec f_1_0 f_0_0 f_0_0 \<and>
   backend (set3DListenerPosition_rev1 initial f_0_0 f_0_0 f_neg_1_0 f_1_0 f_0_0 f_0_0
              f_0_0 f_1_0 f_0_0) =
     [System_set3DListenerAttributes (Vec f_0_0 f_0_0 f_neg_1_0) (Vec f_0_0 f_1_0 f_0_0)
        (Vec f_1_0 f_0_0 f_0_0)] \<and>
   Vec f_1_0 f_0_0 f_0_0 \<noteq> Vec f_0_0 f_1_0 f_0_0"
  by (simp add: set3DListenerPosition_rev1_def invoke_def initial_def f_0_0_def f_1_0_def)

text \<open>
  In general the first earlier revision exchanges X and Y of \<open>forward\<close> and \<open>up\<close>; the
  current engine stores position and up in order and leaves \<open>forward\<close> as it was; the
  second earlier revision stores all three as passed.
\<close>

lemma listener_rev1_stored:
  "listenerpos (set3DListenerPosition_rev1 e px py pz fx fy fz ux uy uz) = Vec px py pz \<and>
   forward (set3DListenerPosition_rev1 e px py pz fx fy fz ux uy uz) = Vec fy fx fz \<and>
   up (set3DListenerPosition_rev1 e px py pz fx fy fz ux uy uz) = Vec uy ux uz"
  by (simp add: set3DListenerPosition_rev1_def invoke_def)

lemma listener_stored:
  "listenerpos (set3DListenerPosition e px py pz fx fy fz ux uy uz) = Vec px py pz \<and>
   forward (set3DListenerPosition e px py pz fx fy fz ux uy uz) = forward e \<and>
   up (set3DListenerPosition e px py pz fx fy fz ux uy uz) = Vec ux uy uz"
  by (simp add: set3DListenerPosition_def invoke_def)

lemma listener_forward_lost:
  "forward (set3DListenerPosition initial f_0_0 f_0_0 f_neg_1_0 f_1_0 f_0_0 f_0_0
              f_0_0 f_1_0 f_0_0) = Vec f_0_0 f_0_0 f_1_0 \<and>
   Vec f_0_0 f_0_0 f_1_0 \<noteq> Vec f_1_0 f_0_0 f_0_0"
  by (simp add: set3DListenerPosition_def invoke_def initial_def f_0_0_def f_1_0_def)

lemma listener_rev2_stored:
  "listenerpos (set3DListenerPosition_rev2 e px py pz fx fy fz ux uy uz) = Vec px py pz \<and>
   forward (set3DListenerPosition_rev2 e px py pz fx fy fz ux uy uz) = Vec fx fy fz \<and>
   up (set3DListenerPosition_rev2 e px py pz fx fy fz ux uy uz) = Vec ux uy uz"
  by (simp add: set3DListenerPosition_rev2_def invoke_def)

end
